theory Spec2Isabelle
  imports Complex_Main "HOL-Library.Word"
begin

section \<open>Go values shared by database.go and rest.go\<close>

text \<open>
  JSON as \<^verbatim>\<open>encoding/json\<close> decodes it into \<^verbatim>\<open>interface{}\<close>: objects are
  \<^verbatim>\<open>map[string]interface{}\<close> (here an association list read with \<open>map_of\<close>), arrays are
  \<^verbatim>\<open>[]interface{}\<close>, numbers are \<^verbatim>\<open>float64\<close>. A number carries the rational that
  the \<^verbatim>\<open>float64\<close> denotes (every finite \<^verbatim>\<open>float64\<close> is a rational; JSON has no NaN and
  no infinity). The same constructor stands for the integers that the program itself
  puts into a JSON value.
\<close>

datatype json =
    JNull
  | JBool bool
  | JNumber rat
  | JString string
  | JArray "json list"
  | JObject "(string \<times> json) list"

type_synonym Body = "(string \<times> json) list"

text \<open>
  A Go \<^verbatim>\<open>error\<close> value. \<^verbatim>\<open>*HTTPError\<close> is declared in database.go;
  \<^verbatim>\<open>*gomemcached.MCResponse\<close> carries the 16-bit status of the K/V server; every other
  error type is kept with the text of its \<^verbatim>\<open>Error()\<close> method. A nil error is \<open>None\<close>.
\<close>

datatype error =
    HTTPError (Status: int) (Message: string)
  | MCResponse "16 word"
  | OtherError string

text \<open>A panic (failed type assertion, index or slice out of range) is not an error value.\<close>

datatype 'a exec = Panic | Return 'a

text \<open>
  Conversions of a \<^verbatim>\<open>float64\<close> to an integer type truncate towards zero.
  \<^verbatim>\<open>int(f)\<close>, with \<^verbatim>\<open>int\<close> the 64-bit signed type: when the truncated value is outside
  the range of \<^verbatim>\<open>int\<close> the Go specification leaves the result to the implementation;
  the amd64 compiler yields the minimum \<^verbatim>\<open>int\<close>, \<open>- 2^63\<close>, which is the value
  taken here.
\<close>

definition go_trunc :: "rat \<Rightarrow> int" where
  "go_trunc f = (if f < 0 then - \<lfloor>- f\<rfloor> else \<lfloor>f\<rfloor>)"

definition go_int :: "rat \<Rightarrow> int" where
  "go_int f =
     (let t = go_trunc f in
      if - 9223372036854775808 \<le> t \<and> t < 9223372036854775808 then t
      else - 9223372036854775808)"

definition KEY_ENOENT :: "16 word" where "KEY_ENOENT = 1"
definition KEY_EEXISTS :: "16 word" where "KEY_EEXISTS = 2"

definition StatusCreated :: int where "StatusCreated = 201"
definition StatusBadRequest :: int where "StatusBadRequest = 400"
definition StatusNotFound :: int where "StatusNotFound = 404"
definition StatusNotAcceptable :: int where "StatusNotAcceptable = 406"
definition StatusConflict :: int where "StatusConflict = 409"
definition StatusInternalServerError :: int where "StatusInternalServerError = 500"
definition StatusBadGateway :: int where "StatusBadGateway = 502"

subsection \<open>Decimal formatting (the \<^verbatim>\<open>%d\<close> verb)\<close>

definition digitChar :: "nat \<Rightarrow> char" where
  "digitChar n = ''0123456789'' ! (n mod 10)"

function showNat :: "nat \<Rightarrow> string" where
  "showNat n = (if n < 10 then [digitChar n] else showNat (n div 10) @ [digitChar n])"
  by pat_completeness auto
termination
  by (relation "measure id") auto

declare showNat.simps [simp del]

definition showInt :: "int \<Rightarrow> string" where
  "showInt i = (if i < 0 then CHR ''-'' # showNat (nat (- i)) else showNat (nat i))"

section \<open>database.go: mapping errors to HTTP\<close>

definition ErrorAsHTTPStatus :: "error option \<Rightarrow> int \<times> string" where
  "ErrorAsHTTPStatus err =
     (case err of
        None \<Rightarrow> (200, ''OK'')
      | Some (HTTPError st msg) \<Rightarrow> (st, msg)
      | Some (MCResponse st) \<Rightarrow>
          (if st = KEY_ENOENT then (StatusNotFound, ''Not Found'')
           else if st = KEY_EEXISTS then (StatusConflict, ''Conflict'')
           else (StatusBadGateway, ''MC status '' @ showNat (unat st)))
      | Some (OtherError msg) \<Rightarrow> (StatusInternalServerError, ''Internal error: '' @ msg))"

section \<open>The bucket (go-couchbase client)\<close>

text \<open>
  A logical database as stored in its record: the exported fields of \<^verbatim>\<open>Database\<close>. The
  \<^verbatim>\<open>bucket\<close> pointer of the Go struct is the bucket state that every operation below
  takes and returns.
\<close>

record Database =
  Name :: string
  DocPrefix :: string

text \<open>
  What a bucket key holds: a database record, an atomic counter, or a stored JSON value.
\<close>

datatype bval = DbRecord Database | Counter "64 word" | DocRecord json

datatype bucketop = OpGet string | OpSet string | OpDelete string

text \<open>
  The bucket state: the key/value pairs, and the trace of the K/V calls made so far (the
  trace is what tells a call that read a key from one that never reached the bucket).
\<close>

record Bucket =
  kv :: "(string \<times> bval) list"
  oplog :: "bucketop list"

definition kv_set :: "string \<Rightarrow> bval \<Rightarrow> (string \<times> bval) list \<Rightarrow> (string \<times> bval) list" where
  "kv_set k v ps = (k, v) # filter (\<lambda>p. fst p \<noteq> k) ps"

definition kv_delete :: "string \<Rightarrow> (string \<times> bval) list \<Rightarrow> (string \<times> bval) list" where
  "kv_delete k ps = filter (\<lambda>p. fst p \<noteq> k) ps"

text \<open>
  Modelled from the spec: the K/V operations of the bucket client (package go-couchbase,
  which is not part of this repository), after the contract of section 4.1.
  \<^verbatim>\<open>Get\<close> decodes the stored value into the caller's shape, here a \<^verbatim>\<open>Database\<close>; a
  missing key is the distinguished not-found error.
\<close>

definition bucket_Get :: "Bucket \<Rightarrow> string \<Rightarrow> (error + Database) \<times> Bucket" where
  "bucket_Get b k =
     ((case map_of (kv b) k of
         None \<Rightarrow> Inl (MCResponse KEY_ENOENT)
       | Some (DbRecord d) \<Rightarrow> Inr d
       | Some _ \<Rightarrow> Inl (OtherError ''json: cannot unmarshal into Go value of type Database'')),
      b\<lparr>oplog := oplog b @ [OpGet k]\<rparr>)"

text \<open>Modelled from the spec: \<^verbatim>\<open>Set\<close> is an unconditional write.\<close>

definition bucket_Set :: "Bucket \<Rightarrow> string \<Rightarrow> bval \<Rightarrow> error option \<times> Bucket" where
  "bucket_Set b k v = (None, b\<lparr>kv := kv_set k v (kv b), oplog := oplog b @ [OpSet k]\<rparr>)"

text \<open>
  Modelled from the spec: \<^verbatim>\<open>Delete\<close> removes the key; on an absent key it reports
  not-found, which the cleanup paths of \<^verbatim>\<open>Database.Delete\<close> ignore.
\<close>

definition bucket_Delete :: "Bucket \<Rightarrow> string \<Rightarrow> error option \<times> Bucket" where
  "bucket_Delete b k =
     ((case map_of (kv b) k of None \<Rightarrow> Some (MCResponse KEY_ENOENT) | Some _ \<Rightarrow> None),
      b\<lparr>kv := kv_delete k (kv b), oplog := oplog b @ [OpDelete k]\<rparr>)"

text \<open>
  \<^verbatim>\<open>Incr(key, delta, initial, expiry)\<close>, the atomic counter of the bucket client: the
  functions that call it take it as a parameter.
\<close>

type_synonym IncrFn =
  "Bucket \<Rightarrow> string \<Rightarrow> 64 word \<Rightarrow> 64 word \<Rightarrow> int \<Rightarrow> (error + 64 word) \<times> Bucket"

text \<open>
  A view row as the client returns it, and the view query itself: the engine that
  evaluates \<^verbatim>\<open>View(design, name, opts)\<close> belongs to the server, so the functions that
  query a view take it as a parameter (each of them queries once, before any write).
\<close>

record ViewRow =
  Key :: json
  Value :: json

type_synonym ViewFn = "string \<Rightarrow> string \<Rightarrow> Body \<Rightarrow> error + ViewRow list"

section \<open>database.go: the database registry\<close>

text \<open>
  \<^verbatim>\<open>kDBNameMatch = regexp.MustCompile("[-%+()$_a-z0-9]+")\<close>: the character class, and
  \<^verbatim>\<open>MatchString\<close>, which reports whether the string \<^emph>\<open>contains\<close> a match of the
  expression. The expression has no anchors, and a non-empty run of class characters
  occurs in a string exactly when one class character does.
\<close>

definition dbNameChar :: "char \<Rightarrow> bool" where
  "dbNameChar c = (c \<in> set ''-%+()$_abcdefghijklmnopqrstuvwxyz0123456789'')"

definition kDBNameMatch :: "string \<Rightarrow> bool" where
  "kDBNameMatch s = list_ex dbNameChar s"

definition dbInternalDocName :: "string \<Rightarrow> string" where
  "dbInternalDocName dbName = (if \<not> kDBNameMatch dbName then '''' else ''cdb:'' @ dbName)"

definition GetDatabase :: "Bucket \<Rightarrow> string \<Rightarrow> (error + Database) \<times> Bucket" where
  "GetDatabase bucket name =
     (let docname = dbInternalDocName name in
      if docname = '''' then (Inl (HTTPError 400 ''Illegal database name''), bucket)
      else case bucket_Get bucket docname of
             (Inl err, bucket') \<Rightarrow> (Inl err, bucket')
           | (Inr db, bucket') \<Rightarrow> (Inr db, bucket'))"

text \<open>
  \<^verbatim>\<open>createUUID()\<close> is defined outside the two source files; \<open>uuid\<close> is the string it
  returns for this call.
\<close>

definition CreateDatabase :: "Bucket \<Rightarrow> string \<Rightarrow> string \<Rightarrow> (error + Database) \<times> Bucket" where
  "CreateDatabase bucket name uuid =
     (let docname = dbInternalDocName name in
      if docname = '''' then (Inl (HTTPError 400 ''Illegal database name''), bucket)
      else case bucket_Get bucket docname of
             (Inr _, bucket') \<Rightarrow> (Inl (HTTPError 412 ''Database already exists''), bucket')
           | (Inl _, bucket') \<Rightarrow>
               (let db = \<lparr>Name = name, DocPrefix = ''doc:'' @ name @ ''/'' @ uuid @ '':''\<rparr> in
                case bucket_Set bucket' docname (DbRecord db) of
                  (Some err, bucket'') \<Rightarrow> (Inl err, bucket'')
                | (None, bucket'') \<Rightarrow> (Inr db, bucket'')))"

definition realDocID :: "Database \<Rightarrow> string \<Rightarrow> string" where
  "realDocID db docid = DocPrefix db @ docid"

text \<open>
  \<^verbatim>\<open>db.DocPrefix[4 : len(db.DocPrefix)-1]\<close>: the slice expression panics unless
  \<open>4 \<le> len - 1\<close>.
\<close>

definition UUID :: "Database \<Rightarrow> string exec" where
  "UUID db =
     (let p = DocPrefix db in
      if length p < 5 then Panic else Return (drop 4 (take (length p - 1) p)))"

section \<open>database.go: the views\<close>

text \<open>
  The two map functions that \<^verbatim>\<open>installViews\<close> installs are JavaScript. What they use
  of the language: \<^verbatim>\<open>String.prototype.split(":", 3)\<close> splits at every colon and keeps
  at most the first three pieces (the rest of the string is dropped, not kept in the
  last piece); reading a property of a value that is not an object gives
  \<^verbatim>\<open>undefined\<close> (\<open>None\<close>), except on \<^verbatim>\<open>null\<close> and \<^verbatim>\<open>undefined\<close>, where it throws
  and the document emits nothing; \<^verbatim>\<open>undefined\<close> inside an emitted array is serialized
  as \<^verbatim>\<open>null\<close>.
\<close>

fun splitOn :: "char \<Rightarrow> string \<Rightarrow> string list" where
  "splitOn c [] = [[]]"
| "splitOn c (x # xs) =
     (if x = c then [] # splitOn c xs
      else (case splitOn c xs of p # ps \<Rightarrow> (x # p) # ps | [] \<Rightarrow> [[x]]))"

definition js_split :: "string \<Rightarrow> nat \<Rightarrow> string list" where
  "js_split s limit = take limit (splitOn CHR '':'' s)"

definition js_prop :: "json \<Rightarrow> string \<Rightarrow> json option" where
  "js_prop v name = (case v of JObject fs \<Rightarrow> map_of fs name | _ \<Rightarrow> None)"

definition js_truthy :: "json option \<Rightarrow> bool" where
  "js_truthy v =
     (case v of
        None \<Rightarrow> False
      | Some JNull \<Rightarrow> False
      | Some (JBool b) \<Rightarrow> b
      | Some (JNumber n) \<Rightarrow> n \<noteq> 0
      | Some (JString s) \<Rightarrow> s \<noteq> ''''
      | Some _ \<Rightarrow> True)"

definition js_elem :: "json option \<Rightarrow> json" where
  "js_elem v = (case v of None \<Rightarrow> JNull | Some x \<Rightarrow> x)"

text \<open>\<^verbatim>\<open>alldocs_map\<close>: the rows one stored value emits, from its key \<^verbatim>\<open>meta.id\<close>.\<close>

definition alldocs_map :: "json \<Rightarrow> string \<Rightarrow> ViewRow list" where
  "alldocs_map doc meta_id =
     (let pieces = js_split meta_id 3 in
      if length pieces < 3 then []
      else if pieces ! 0 \<noteq> ''doc'' then []
      else [\<lparr>Key = JArray [JString (pieces ! 1), JString (pieces ! 2)], Value = JNull\<rparr>])"

text \<open>\<^verbatim>\<open>changes_map\<close>.\<close>

definition changes_map :: "json \<Rightarrow> string \<Rightarrow> ViewRow list" where
  "changes_map doc meta_id =
     (case js_prop doc ''sequence'' of
        None \<Rightarrow> []
      | Some sequence \<Rightarrow>
          (let pieces = js_split meta_id 3 in
           if length pieces < 3 then []
           else if pieces ! 0 \<noteq> ''doc'' then []
           else (case js_prop doc ''current'' of
                   None \<Rightarrow> []
                 | Some current \<Rightarrow>
                     (if current = JNull then []
                      else
                        (let value = [js_elem (js_prop current ''_id''),
                                      js_elem (js_prop current ''_rev'')];
                             value' = (if js_truthy (js_prop current ''_deleted'')
                                       then value @ [JBool True] else value)
                         in [\<lparr>Key = JArray [JString (pieces ! 1), sequence],
                               Value = JArray value'\<rparr>])))))"

text \<open>
  Modelled from the spec: the \<^verbatim>\<open>all_docs\<close> index of section 4.2 over the stored keys,
  for a non-reduce query with the key range \<open>[uuid] .. [uuid, {}]\<close>: the rows emitted
  by \<open>alldocs_map\<close> whose first key component is the one of \<open>startkey\<close>. The rows are
  listed in store order; the collation order of the server is not modelled.
\<close>

definition stored_json :: "bval \<Rightarrow> json" where
  "stored_json v =
     (case v of
        DbRecord d \<Rightarrow> JObject [(''name'', JString (Name d)), (''docPrefix'', JString (DocPrefix d))]
      | Counter c \<Rightarrow> JNumber (of_int (uint c))
      | DocRecord j \<Rightarrow> j)"

definition all_docs_view :: "Bucket \<Rightarrow> ViewFn" where
  "all_docs_view b design name opts =
     (if design = ''couchdb'' \<and> name = ''all_docs'' then
        (case map_of opts ''startkey'' of
           Some (JArray (uuid # ks)) \<Rightarrow>
             Inr (filter (\<lambda>row. case Key row of JArray (k0 # ks') \<Rightarrow> k0 = uuid | _ \<Rightarrow> False)
                    (concat (map (\<lambda>p. alldocs_map (stored_json (snd p)) (fst p)) (kv b))))
         | _ \<Rightarrow> Inl (HTTPError 400 ''query_parse_error''))
      else Inl (HTTPError 404 ''not_found''))"

section \<open>database.go: all documents, deletion\<close>

definition allDocIDsOpts :: "Database \<Rightarrow> bool \<Rightarrow> Body exec" where
  "allDocIDsOpts db reduce =
     (case UUID db of
        Panic \<Rightarrow> Panic
      | Return uuid \<Rightarrow>
          Return [(''startkey'', JArray [JString uuid]),
                  (''endkey'', JArray [JString uuid, JObject []]),
                  (''reduce'', JBool reduce)])"

text \<open>
  The loop of \<^verbatim>\<open>AllDocIDs\<close>: \<^verbatim>\<open>row.Key.([]interface{})\<close> and \<^verbatim>\<open>key[1].(string)\<close>
  panic on a key of another shape.
\<close>

fun allDocIDsLoop :: "ViewRow list \<Rightarrow> string list \<Rightarrow> string list exec" where
  "allDocIDsLoop [] docids = Return docids"
| "allDocIDsLoop (row # rows) docids =
     (case Key row of
        JArray (k0 # JString docid # ks) \<Rightarrow> allDocIDsLoop rows (docids @ [docid])
      | _ \<Rightarrow> Panic)"

definition AllDocIDs :: "Database \<Rightarrow> ViewFn \<Rightarrow> (error + string list) exec" where
  "AllDocIDs db view =
     (case allDocIDsOpts db False of
        Panic \<Rightarrow> Panic
      | Return opts \<Rightarrow>
          (case view ''couchdb'' ''all_docs'' opts of
             Inl err \<Rightarrow> Return (Inl err)
           | Inr rows \<Rightarrow>
               (case allDocIDsLoop rows [] of
                  Panic \<Rightarrow> Panic
                | Return docids \<Rightarrow> Return (Inr docids))))"

definition sequenceDocID :: "Database \<Rightarrow> string" where
  "sequenceDocID db = dbInternalDocName (Name db) @ '':nextsequence''"

text \<open>The loop of \<^verbatim>\<open>Delete\<close>: the result of each \<^verbatim>\<open>bucket.Delete\<close> is dropped.\<close>

fun deleteLoop :: "string list \<Rightarrow> Bucket \<Rightarrow> Bucket" where
  "deleteLoop [] bucket = bucket"
| "deleteLoop (docID # docIDs) bucket = deleteLoop docIDs (snd (bucket_Delete bucket docID))"

definition Delete :: "Database \<Rightarrow> ViewFn \<Rightarrow> Bucket \<Rightarrow> (error option \<times> Bucket) exec" where
  "Delete db view bucket =
     (case AllDocIDs db view of
        Panic \<Rightarrow> Panic
      | Return (Inl err) \<Rightarrow> Return (Some err, bucket)
      | Return (Inr docIDs) \<Rightarrow>
          (case bucket_Delete bucket (dbInternalDocName (Name db)) of
             (Some err, bucket1) \<Rightarrow> Return (Some err, bucket1)
           | (None, bucket1) \<Rightarrow>
               (let bucket2 = snd (bucket_Delete bucket1 (sequenceDocID db))
                in Return (None, deleteLoop docIDs bucket2))))"

section \<open>database.go: sequences and changes\<close>

definition LastSequence :: "IncrFn \<Rightarrow> Database \<Rightarrow> Bucket \<Rightarrow> (error + 64 word) \<times> Bucket" where
  "LastSequence incr db bucket = incr bucket (sequenceDocID db) 0 0 0"

definition generateSequence :: "IncrFn \<Rightarrow> Database \<Rightarrow> Bucket \<Rightarrow> (error + 64 word) \<times> Bucket" where
  "generateSequence incr db bucket = incr bucket (sequenceDocID db) 1 1 0"

text \<open>\<^verbatim>\<open>Since\<close> is a \<^verbatim>\<open>uint64\<close>; \<^verbatim>\<open>Limit\<close> is an \<^verbatim>\<open>int\<close>, read as a signed 64-bit value.\<close>

record ChangesOptions =
  Since :: "64 word"
  Limit :: "64 word"
  Descending :: bool

text \<open>\<^verbatim>\<open>ChangeRev\<close> is a \<^verbatim>\<open>map[string]string\<close>.\<close>

record ChangeEntry =
  Seq :: "64 word"
  ID :: string
  Changes :: "(string \<times> string) list list"
  Deleted :: bool

definition changesOpts :: "Database \<Rightarrow> ChangesOptions \<Rightarrow> Body exec" where
  "changesOpts db options =
     (case UUID db of
        Panic \<Rightarrow> Panic
      | Return uuid \<Rightarrow>
          (let startkey = JArray [JString uuid, JNumber (of_int (uint (Since options + 1)))];
               endkey = JArray [JString uuid, JObject []];
               opts = [(''startkey'', startkey), (''endkey'', endkey),
                       (''descending'', JBool (Descending options))]
           in Return (if 0 < sint (Limit options)
                      then opts @ [(''limit'', JNumber (of_int (sint (Limit options))))]
                      else opts)))"

text \<open>
  One row of the changes view as a \<^verbatim>\<open>ChangeEntry\<close>. Each type assertion panics on a
  value of another type, each index past the end of its slice; \<^verbatim>\<open>value[2].(bool)\<close> is
  evaluated only when \<^verbatim>\<open>len(value) >= 3\<close>. \<^verbatim>\<open>uint64(f)\<close> truncates and is exact on
  the sequence numbers the view emits.
\<close>

definition changeEntry :: "ViewRow \<Rightarrow> ChangeEntry exec" where
  "changeEntry row =
     (case Key row of
        JArray key \<Rightarrow>
          (case Value row of
             JArray value \<Rightarrow>
               (case key of
                  k0 # JNumber f # ks \<Rightarrow>
                    (case value of
                       JString ident # JString revid # rest \<Rightarrow>
                         (case rest of
                            [] \<Rightarrow>
                              Return \<lparr>Seq = word_of_int (go_trunc f), ID = ident,
                                      Changes = [[(''rev'', revid)]], Deleted = False\<rparr>
                          | JBool b # vs \<Rightarrow>
                              Return \<lparr>Seq = word_of_int (go_trunc f), ID = ident,
                                      Changes = [[(''rev'', revid)]], Deleted = b\<rparr>
                          | _ \<Rightarrow> Panic)
                     | _ \<Rightarrow> Panic)
                | _ \<Rightarrow> Panic)
           | _ \<Rightarrow> Panic)
      | _ \<Rightarrow> Panic)"

fun changesLoop :: "ViewRow list \<Rightarrow> ChangeEntry list \<Rightarrow> ChangeEntry list exec" where
  "changesLoop [] changes = Return changes"
| "changesLoop (row # rows) changes =
     (case changeEntry row of
        Panic \<Rightarrow> Panic
      | Return entry \<Rightarrow> changesLoop rows (changes @ [entry]))"

definition GetChanges :: "Database \<Rightarrow> ViewFn \<Rightarrow> ChangesOptions \<Rightarrow> (error + ChangeEntry list) exec" where
  "GetChanges db view options =
     (case changesOpts db options of
        Panic \<Rightarrow> Panic
      | Return opts \<Rightarrow>
          (case view ''couchdb'' ''changes'' opts of
             Inl err \<Rightarrow> Return (Inl err)
           | Inr rows \<Rightarrow>
               (case changesLoop rows [] of
                  Panic \<Rightarrow> Panic
                | Return changes \<Rightarrow> Return (Inr changes))))"

section \<open>rest.go: helper functions\<close>

text \<open>
  \<^verbatim>\<open>fmt.Sprintf("%d-%s", start, id)\<close>: under \<^verbatim>\<open>%s\<close> a string operand is printed as it
  is; what package \<^verbatim>\<open>fmt\<close> prints for an operand of another type is the parameter
  \<open>other\<close>.
\<close>

definition sprintf_s :: "(json \<Rightarrow> string) \<Rightarrow> json \<Rightarrow> string" where
  "sprintf_s other v = (case v of JString s \<Rightarrow> s | _ \<Rightarrow> other v)"

fun parseRevisionsLoop :: "(json \<Rightarrow> string) \<Rightarrow> json list \<Rightarrow> int \<Rightarrow> string list \<Rightarrow> string list" where
  "parseRevisionsLoop other [] start result = result"
| "parseRevisionsLoop other (ident # ids) start result =
     parseRevisionsLoop other ids (start - 1)
       (result @ [showInt start @ ''-'' @ sprintf_s other ident])"

text \<open>
  \<^verbatim>\<open>parseRevisions\<close>: a nil slice is \<open>None\<close>. The first type assertion is the
  two-result form and cannot panic; \<^verbatim>\<open>revisions["start"].(float64)\<close> and
  \<^verbatim>\<open>revisions["ids"].([]interface{})\<close> are the one-result form and panic on a missing
  field or a value of another type. \<^verbatim>\<open>start\<close> is \<^verbatim>\<open>int(...)\<close> of the \<^verbatim>\<open>float64\<close>; the
  loop is entered with \<open>len(ids) \<le> start\<close> and decrements \<^verbatim>\<open>start\<close> once per id, so
  \<^verbatim>\<open>start--\<close> never leaves the range of \<^verbatim>\<open>int\<close>.
\<close>

definition parseRevisions :: "(json \<Rightarrow> string) \<Rightarrow> Body \<Rightarrow> string list option exec" where
  "parseRevisions other body =
     (case map_of body ''_revisions'' of
        Some (JObject revisions) \<Rightarrow>
          (case map_of revisions ''start'' of
             Some (JNumber f) \<Rightarrow>
               (let start = go_int f in
                case map_of revisions ''ids'' of
                  Some (JArray ids) \<Rightarrow>
                    (if start < int (length ids) then Return None
                     else Return (Some (parseRevisionsLoop other ids start [])))
                | _ \<Rightarrow> Panic)
           | _ \<Rightarrow> Panic)
      | _ \<Rightarrow> Return None)"

text \<open>
  What a handler reads of the request: the \<^verbatim>\<open>Content-Type\<close> header
  (\<^verbatim>\<open>rq.Header.Get\<close>, empty when absent), the outcome of \<^verbatim>\<open>ioutil.ReadAll(rq.Body)\<close>,
  and the \<^verbatim>\<open>new_edits\<close> query parameter (\<^verbatim>\<open>query.Get\<close>, empty when absent).
\<close>

record Request =
  ContentType :: string
  ReadAllBody :: "error + string"
  NewEdits :: string

text \<open>
  \<^verbatim>\<open>readJSONInto\<close>; \<open>unmarshal\<close> is \<^verbatim>\<open>json.Unmarshal\<close> into the caller's type, \<open>None\<close>
  when it returns an error.
\<close>

definition readJSONInto :: "(string \<Rightarrow> 'a option) \<Rightarrow> Request \<Rightarrow> error + 'a" where
  "readJSONInto unmarshal rq =
     (let contentType = ContentType rq in
      if contentType \<noteq> '''' \<and> contentType \<noteq> ''application/json''
      then Inl (HTTPError StatusNotAcceptable (''Invalid content type '' @ contentType))
      else case ReadAllBody rq of
             Inl err \<Rightarrow> Inl (HTTPError StatusBadRequest '''')
           | Inr body \<Rightarrow>
               (case unmarshal body of
                  None \<Rightarrow> Inl (HTTPError StatusBadRequest ''Bad JSON'')
                | Some v \<Rightarrow> Inr v))"

definition readJSON :: "(string \<Rightarrow> Body option) \<Rightarrow> Request \<Rightarrow> error + Body" where
  "readJSON unmarshal rq = readJSONInto unmarshal rq"

text \<open>
  The response writer is the sequence of calls made on it, together with the calls into
  the revision engine, in the order they happen.
\<close>

datatype event =
    WriteHeader int
  | SetHeader string string
  | WriteJSON json
  | CallPut string Body
  | CallPutExistingRev string Body "string list option"

text \<open>
  \<^verbatim>\<open>writeJSON\<close>: the values written here are maps of strings, numbers and booleans, which
  \<^verbatim>\<open>json.Marshal\<close> always encodes.
\<close>

definition writeJSON :: "json \<Rightarrow> event list \<Rightarrow> event list" where
  "writeJSON v r = r @ [SetHeader ''Content-Type'' ''application/json'', WriteJSON v]"

definition writeError :: "error option \<Rightarrow> event list \<Rightarrow> event list" where
  "writeError err r =
     (case err of
        None \<Rightarrow> r
      | Some e \<Rightarrow>
          (case ErrorAsHTTPStatus (Some e) of
             (status, message) \<Rightarrow>
               writeJSON (JObject [(''error'', JNumber (of_int status)), (''reason'', JString message)])
                 (r @ [WriteHeader status])))"

section \<open>rest.go: PUT of a document\<close>

text \<open>
  \<^verbatim>\<open>db.Put\<close> and \<^verbatim>\<open>db.PutExistingRev\<close> are defined outside the two source files; the
  handler takes what they return as parameters and records each call.
\<close>

definition HandlePutDoc ::
  "(string \<Rightarrow> Body option) \<Rightarrow> (json \<Rightarrow> string) \<Rightarrow>
   (string \<Rightarrow> Body \<Rightarrow> error + string) \<Rightarrow>
   (string \<Rightarrow> Body \<Rightarrow> string list option \<Rightarrow> error option) \<Rightarrow>
   event list \<Rightarrow> Request \<Rightarrow> string \<Rightarrow> event list exec" where
  "HandlePutDoc unmarshal other put putExistingRev r rq docid =
     (case readJSON unmarshal rq of
        Inl err \<Rightarrow> Return (writeError (Some err) r)
      | Inr body \<Rightarrow>
          (if NewEdits rq \<noteq> ''false'' then
             (case put docid body of
                Inl err \<Rightarrow> Return (writeError (Some err) (r @ [CallPut docid body]))
              | Inr newRev \<Rightarrow>
                  Return (writeJSON (JObject [(''ok'', JBool True), (''id'', JString docid),
                                              (''rev'', JString newRev)])
                            (r @ [CallPut docid body, SetHeader ''Etag'' newRev])
                          @ [WriteHeader StatusCreated]))
           else
             (case parseRevisions other body of
                Panic \<Rightarrow> Panic
              | Return revisions \<Rightarrow>
                  (let r1 = (if revisions = None
                             then writeError (Some (HTTPError StatusBadRequest ''Bad _revisions'')) r
                             else r);
                       err = putExistingRev docid body revisions;
                       r2 = r1 @ [CallPutExistingRev docid body revisions];
                       r3 = (if err \<noteq> None then writeError err r2 else r2)
                   in Return (r3 @ [WriteHeader StatusCreated])))))"

section \<open>Properties: error mapping\<close>

text \<open>
  Claim C7, as the code has it: \<^verbatim>\<open>ErrorAsHTTPStatus\<close> maps a nil error to 200, a K/V
  not-found error to 404, a K/V already-exists error (\<^verbatim>\<open>KEY_EEXISTS\<close>) to 409 Conflict,
  any other K/V error to 502, an \<^verbatim>\<open>HTTPError\<close> to its own status, and any other error
  to 500.
\<close>

theorem ErrorAsHTTPStatus_statuses:
  "fst (ErrorAsHTTPStatus None) = 200 \<and>
   fst (ErrorAsHTTPStatus (Some (MCResponse KEY_ENOENT))) = 404 \<and>
   fst (ErrorAsHTTPStatus (Some (MCResponse KEY_EEXISTS))) = 409 \<and>
   (st \<noteq> KEY_ENOENT \<and> st \<noteq> KEY_EEXISTS \<longrightarrow> fst (ErrorAsHTTPStatus (Some (MCResponse st))) = 502) \<and>
   fst (ErrorAsHTTPStatus (Some (HTTPError s m))) = s \<and>
   fst (ErrorAsHTTPStatus (Some (OtherError m'))) = 500"
  by (simp add: ErrorAsHTTPStatus_def KEY_EEXISTS_def KEY_ENOENT_def StatusConflict_def
      StatusNotFound_def StatusBadGateway_def StatusInternalServerError_def)

theorem ErrorAsHTTPStatus_statuses_witness:
  "(5 :: 16 word) \<noteq> KEY_ENOENT \<and> (5 :: 16 word) \<noteq> KEY_EEXISTS \<and>
   fst (ErrorAsHTTPStatus (Some (MCResponse 5))) = 502 \<and>
   fst (ErrorAsHTTPStatus (Some (HTTPError 412 ''Database already exists''))) = 412 \<and>
   fst (ErrorAsHTTPStatus (Some (OtherError ''EOF''))) = 500"
  using ErrorAsHTTPStatus_statuses [of 5 412 "''Database already exists''" "''EOF''"]
  by (simp add: KEY_EEXISTS_def KEY_ENOENT_def)

text \<open>
  Claim C7 as stated fails: a K/V already-exists error is answered with 409, not 412.
\<close>

theorem ErrorAsHTTPStatus_conflict_counterexample:
  "fst (ErrorAsHTTPStatus (Some (MCResponse KEY_EEXISTS))) \<noteq> 412"
  by (simp add: ErrorAsHTTPStatus_def KEY_EEXISTS_def KEY_ENOENT_def StatusConflict_def)

section \<open>Properties: reading a JSON request body\<close>

text \<open>
  Claim C8: when the \<^verbatim>\<open>Content-Type\<close> header is non-empty and not
  \<^verbatim>\<open>application/json\<close>, \<^verbatim>\<open>readJSONInto\<close> fails with status 406 whatever the body holds
  and whatever the decoder would do with it (neither is consulted); when the header is
  empty or \<^verbatim>\<open>application/json\<close>, the outcome is decided by reading and decoding the
  body alone (400 or success).
\<close>

theorem readJSONInto_content_type:
  "(ContentType rq \<noteq> '''' \<and> ContentType rq \<noteq> ''application/json'' \<longrightarrow>
      readJSONInto unmarshal rq = Inl (HTTPError 406 (''Invalid content type '' @ ContentType rq)) \<and>
      readJSONInto unmarshal' (rq\<lparr>ReadAllBody := body'\<rparr>) = readJSONInto unmarshal rq \<and>
      fst (ErrorAsHTTPStatus (Some (HTTPError 406 (''Invalid content type '' @ ContentType rq)))) = 406) \<and>
   (ContentType rq = '''' \<or> ContentType rq = ''application/json'' \<longrightarrow>
      readJSONInto unmarshal rq =
        (case ReadAllBody rq of
           Inl err \<Rightarrow> Inl (HTTPError 400 '''')
         | Inr body \<Rightarrow>
             (case unmarshal body of
                None \<Rightarrow> Inl (HTTPError 400 ''Bad JSON'')
              | Some v \<Rightarrow> Inr v)))"
  by (auto simp add: readJSONInto_def Let_def StatusNotAcceptable_def StatusBadRequest_def
      ErrorAsHTTPStatus_def split: sum.splits option.splits)

theorem readJSONInto_content_type_witness:
  "readJSONInto (\<lambda>s. Some s) \<lparr>ContentType = ''text/plain'', ReadAllBody = Inr ''{}'', NewEdits = ''''\<rparr>
     = Inl (HTTPError 406 ''Invalid content type text/plain'') \<and>
   readJSONInto (\<lambda>s. Some s) \<lparr>ContentType = ''application/json'', ReadAllBody = Inr ''{}'', NewEdits = ''''\<rparr>
     = Inr ''{}'' \<and>
   readJSONInto (\<lambda>s. Some s) \<lparr>ContentType = '''', ReadAllBody = Inr ''{}'', NewEdits = ''''\<rparr>
     = Inr ''{}''"
  using readJSONInto_content_type [of "\<lparr>ContentType = ''text/plain'', ReadAllBody = Inr ''{}'', NewEdits = ''''\<rparr>" "\<lambda>s. Some s"]
    readJSONInto_content_type [of "\<lparr>ContentType = ''application/json'', ReadAllBody = Inr ''{}'', NewEdits = ''''\<rparr>" "\<lambda>s. Some s"]
    readJSONInto_content_type [of "\<lparr>ContentType = '''', ReadAllBody = Inr ''{}'', NewEdits = ''''\<rparr>" "\<lambda>s. Some s"]
  by simp

section \<open>Properties: parsing \<^verbatim>\<open>_revisions\<close>\<close>

lemma go_trunc_of_int: "go_trunc (of_int n) = n"
proof -
  have "- (of_int n :: rat) = of_int (- n)" by simp
  then show ?thesis
    unfolding go_trunc_def by (simp only: floor_of_int) simp
qed

lemma go_int_in_range:
  "- 9223372036854775808 \<le> n \<Longrightarrow> n < 9223372036854775808 \<Longrightarrow> go_int (of_int n) = n"
  by (simp add: go_int_def go_trunc_of_int)

text \<open>
  \<open>showNat\<close> is the decimal numeral: its characters are digits, it has no leading zero,
  and it denotes the number it prints.
\<close>

lemma below_ten:
  "(k::nat) < 10 \<Longrightarrow>
     k = 0 \<or> k = 1 \<or> k = 2 \<or> k = 3 \<or> k = 4 \<or> k = 5 \<or> k = 6 \<or> k = 7 \<or> k = 8 \<or> k = 9"
  by arith

lemma digitChar_value: "(of_char (digitChar d) :: nat) = 48 + d mod 10"
  using below_ten [of "d mod 10"] by (auto simp add: digitChar_def)

lemma digitChar_digit: "digitChar d \<in> set ''0123456789''"
  using below_ten [of "d mod 10"] by (auto simp add: digitChar_def)

lemma showNat_digits: "set (showNat n) \<subseteq> set ''0123456789''"
proof (induction n rule: showNat.induct)
  case (1 n)
  show ?case
  proof (cases "n < 10")
    case True
    then show ?thesis
      using digitChar_digit [of n] by (simp add: showNat.simps [of n])
  next
    case False
    then show ?thesis
      using 1 digitChar_digit [of n] by (simp add: showNat.simps [of n])
  qed
qed

lemma showNat_decimal:
  "foldl (\<lambda>a c. 10 * a + (of_char c - 48)) 0 (showNat n) = n"
proof (induction n rule: showNat.induct)
  case (1 n)
  show ?case
  proof (cases "n < 10")
    case True
    then show ?thesis
      by (simp add: showNat.simps [of n] digitChar_value)
  next
    case False
    then have "foldl (\<lambda>a c. 10 * a + (of_char c - 48)) 0 (showNat (n div 10)) = n div 10"
      using 1 by simp
    then show ?thesis
      using False by (simp add: showNat.simps [of n] digitChar_value)
  qed
qed

lemma showNat_nonempty: "showNat n \<noteq> []"
  by (simp add: showNat.simps [of n])

lemma showNat_no_leading_zero: "0 < n \<Longrightarrow> hd (showNat n) \<noteq> CHR ''0''"
proof (induction n rule: showNat.induct)
  case (1 n)
  show ?case
  proof (cases "n < 10")
    case True
    then show ?thesis
      using "1.prems" below_ten [of n] by (auto simp add: showNat.simps [of n] digitChar_def)
  next
    case False
    then have "hd (showNat (n div 10)) \<noteq> CHR ''0''"
      using 1 by simp
    then show ?thesis
      using False showNat_nonempty [of "n div 10"] by (simp add: showNat.simps [of n])
  qed
qed

lemma parseRevisionsLoop_strings:
  "parseRevisionsLoop other (map JString hs) (n - int k) acc =
     acc @ map (\<lambda>(i, h). showInt (n - int i) @ ''-'' @ h) (enumerate k hs)"
proof (induction hs arbitrary: k acc)
  case Nil
  then show ?case by simp
next
  case (Cons h hs)
  have "n - int k - 1 = n - int (Suc k)" by simp
  then have "parseRevisionsLoop other (map JString hs) (n - int k - 1)
               (acc @ [showInt (n - int k) @ ''-'' @ h]) =
             (acc @ [showInt (n - int k) @ ''-'' @ h]) @
               map (\<lambda>(i, h). showInt (n - int i) @ ''-'' @ h) (enumerate (Suc k) hs)"
    using Cons.IH [of "Suc k" "acc @ [showInt (n - int k) @ ''-'' @ h]"] by metis
  then show ?case
    by (simp add: sprintf_s_def)
qed

text \<open>
  Claim C6, as the code has it: for a body whose \<^verbatim>\<open>_revisions\<close> is
  \<^verbatim>\<open>{start: n, ids: [h0, h1, ...]}\<close> with string ids and an integer \<open>n\<close> in the range of
  \<^verbatim>\<open>int\<close>, \<open>len(ids) \<le> n < 2^63\<close>, \<^verbatim>\<open>parseRevisions\<close> returns the revids \<open>n-h0\<close>,
  \<open>(n-1)-h1\<close>, ... (the id at index \<open>i\<close> gets generation \<open>n - i\<close>); it returns nil
  when \<^verbatim>\<open>_revisions\<close> is absent, when it is not an object, and when \<open>start\<close> is an
  integer below \<open>len(ids)\<close>.
\<close>

theorem parseRevisions_revids:
  "(map_of body ''_revisions'' = Some (JObject revisions) \<and>
    map_of revisions ''start'' = Some (JNumber (of_int n)) \<and>
    map_of revisions ''ids'' = Some (JArray (map JString hs)) \<and>
    int (length hs) \<le> n \<and> n < 9223372036854775808 \<longrightarrow>
      parseRevisions other body =
        Return (Some (map (\<lambda>(i, h). showInt (n - int i) @ ''-'' @ h) (enumerate 0 hs)))) \<and>
   (map_of body ''_revisions'' = None \<longrightarrow> parseRevisions other body = Return None) \<and>
   ((\<forall>fs. map_of body ''_revisions'' \<noteq> Some (JObject fs)) \<longrightarrow>
      parseRevisions other body = Return None) \<and>
   (map_of body ''_revisions'' = Some (JObject revisions) \<and>
    map_of revisions ''start'' = Some (JNumber (of_int n)) \<and>
    map_of revisions ''ids'' = Some (JArray ids) \<and>
    n < int (length ids) \<longrightarrow>
      parseRevisions other body = Return None)"
proof (intro conjI impI)
  assume a: "map_of body ''_revisions'' = Some (JObject revisions) \<and>
    map_of revisions ''start'' = Some (JNumber (of_int n)) \<and>
    map_of revisions ''ids'' = Some (JArray (map JString hs)) \<and>
    int (length hs) \<le> n \<and> n < 9223372036854775808"
  then have g: "go_int (of_int n) = n"
    by (intro go_int_in_range) simp_all
  have "parseRevisionsLoop other (map JString hs) (n - int 0) [] =
     [] @ map (\<lambda>(i, h). showInt (n - int i) @ ''-'' @ h) (enumerate 0 hs)"
    by (rule parseRevisionsLoop_strings)
  with a show "parseRevisions other body =
        Return (Some (map (\<lambda>(i, h). showInt (n - int i) @ ''-'' @ h) (enumerate 0 hs)))"
    by (simp add: parseRevisions_def g)
next
  assume "map_of body ''_revisions'' = None"
  then show "parseRevisions other body = Return None"
    by (simp add: parseRevisions_def)
next
  assume "\<forall>fs. map_of body ''_revisions'' \<noteq> Some (JObject fs)"
  then show "parseRevisions other body = Return None"
    by (simp add: parseRevisions_def split: option.splits json.splits)
next
  assume a: "map_of body ''_revisions'' = Some (JObject revisions) \<and>
    map_of revisions ''start'' = Some (JNumber (of_int n)) \<and>
    map_of revisions ''ids'' = Some (JArray ids) \<and>
    n < int (length ids)"
  have "go_int (of_int n) < int (length ids)"
  proof (cases "- 9223372036854775808 \<le> n \<and> n < 9223372036854775808")
    case True
    then show ?thesis
      using a by (simp add: go_int_in_range)
  next
    case False
    then have "go_int (of_int n) = - 9223372036854775808"
      by (auto simp add: go_int_def go_trunc_of_int)
    then show ?thesis
      by simp
  qed
  with a show "parseRevisions other body = Return None"
    by (simp add: parseRevisions_def)
qed

theorem parseRevisions_revids_witness:
  "parseRevisions (\<lambda>v. '''')
     [(''_revisions'', JObject [(''start'', JNumber 1203),
                                (''ids'', JArray [JString ''c'', JString ''b'', JString ''a''])])]
     = Return (Some [''1203-c'', ''1202-b'', ''1201-a'']) \<and>
   parseRevisions (\<lambda>v. '''') [] = Return None \<and>
   parseRevisions (\<lambda>v. '''') [(''_revisions'', JNumber 1)] = Return None \<and>
   parseRevisions (\<lambda>v. '''')
     [(''_revisions'', JObject [(''start'', JNumber 1), (''ids'', JArray [JString ''c'', JString ''b''])])]
     = Return None"
  using
    parseRevisions_revids [of "[(''_revisions'', JObject [(''start'', JNumber 1203),
                                (''ids'', JArray [JString ''c'', JString ''b'', JString ''a''])])]"
      "[(''start'', JNumber 1203), (''ids'', JArray [JString ''c'', JString ''b'', JString ''a''])]"
      1203 "[''c'', ''b'', ''a'']" "\<lambda>v. ''''" "[]"]
    parseRevisions_revids [of "[]" "[]" 0 "[]" "\<lambda>v. ''''" "[]"]
    parseRevisions_revids [of "[(''_revisions'', JNumber 1)]" "[]" 0 "[]" "\<lambda>v. ''''" "[]"]
    parseRevisions_revids [of "[(''_revisions'', JObject [(''start'', JNumber 1), (''ids'', JArray [JString ''c'', JString ''b''])])]"
      "[(''start'', JNumber 1), (''ids'', JArray [JString ''c'', JString ''b''])]" 1 "[]" "\<lambda>v. ''''" "[JString ''c'', JString ''b'']"]
  by (simp add: enumerate_eq_zip showInt_def showNat.simps digitChar_def)

text \<open>
  Claim C6 as stated fails outside these bounds. With \<open>start = 2^63\<close> and one id the
  conversion \<^verbatim>\<open>int(...)\<close> leaves the range of \<^verbatim>\<open>int\<close> and the result is nil, not a
  revid of generation \<open>2^63\<close>; with \<open>start = -0.5\<close> and no ids, \<open>start < len(ids)\<close>
  holds but \<^verbatim>\<open>int(...)\<close> gives 0 and the result is the empty list, not nil.
\<close>

theorem parseRevisions_start_counterexample:
  "parseRevisions (\<lambda>v. '''')
     [(''_revisions'', JObject [(''start'', JNumber 9223372036854775808),
                                (''ids'', JArray [JString ''a''])])]
     = Return None \<and>
   parseRevisions (\<lambda>v. '''')
     [(''_revisions'', JObject [(''start'', JNumber (- 1 / 2)), (''ids'', JArray [])])]
     = Return (Some [])"
proof -
  have "\<lfloor>1 / 2 :: rat\<rfloor> = 0"
    by (rule floor_unique) simp_all
  then show ?thesis
    by (simp add: parseRevisions_def go_int_def go_trunc_def Let_def)
qed

text \<open>A fractional \<^verbatim>\<open>start\<close> is truncated: 2.5 gives the generations 2 and 1.\<close>

lemma parseRevisions_fractional_start:
  "parseRevisions (\<lambda>v. '''')
     [(''_revisions'', JObject [(''start'', JNumber (5 / 2)),
                                (''ids'', JArray [JString ''b'', JString ''a''])])]
     = Return (Some [''2-b'', ''1-a''])"
proof -
  have "\<lfloor>5 / 2 :: rat\<rfloor> = 2"
    by (rule floor_unique) simp_all
  then show ?thesis
    by (simp add: parseRevisions_def go_int_def go_trunc_def Let_def showInt_def showNat.simps
        digitChar_def sprintf_s_def)
qed

section \<open>Properties: PUT with \<^verbatim>\<open>new_edits=false\<close>\<close>

text \<open>
  Claim C10: in \<^verbatim>\<open>HandlePutDoc\<close> with \<^verbatim>\<open>new_edits=false\<close>, when \<^verbatim>\<open>parseRevisions\<close>
  returns nil the handler writes the 400 error response and goes on: it calls
  \<^verbatim>\<open>PutExistingRev\<close> with the nil list, writes that call's error if it has one, and
  ends with \<^verbatim>\<open>WriteHeader(201)\<close>; whatever \<^verbatim>\<open>parseRevisions\<close> returns, the
  \<^verbatim>\<open>new_edits=false\<close> path calls \<^verbatim>\<open>PutExistingRev\<close> and its last call on the response
  is \<^verbatim>\<open>WriteHeader(201)\<close>.
\<close>

theorem HandlePutDoc_new_edits_false:
  "(readJSON unmarshal rq = Inr body \<and> NewEdits rq = ''false'' \<and>
    parseRevisions other body = Return None \<longrightarrow>
      HandlePutDoc unmarshal other put putExistingRev r rq docid =
        Return (writeError (putExistingRev docid body None)
                  (r @ [WriteHeader 400,
                        SetHeader ''Content-Type'' ''application/json'',
                        WriteJSON (JObject [(''error'', JNumber 400), (''reason'', JString ''Bad _revisions'')]),
                        CallPutExistingRev docid body None])
                @ [WriteHeader 201])) \<and>
   (readJSON unmarshal rq = Inr body \<and> NewEdits rq = ''false'' \<and>
    parseRevisions other body = Return revisions \<longrightarrow>
      (\<exists>evs. HandlePutDoc unmarshal other put putExistingRev r rq docid =
               Return (r @ evs @ [WriteHeader 201]) \<and>
             CallPutExistingRev docid body revisions \<in> set evs))"
  by (auto simp add: HandlePutDoc_def Let_def writeError_def writeJSON_def ErrorAsHTTPStatus_def
      StatusBadRequest_def StatusCreated_def split: option.splits prod.splits)

theorem HandlePutDoc_new_edits_false_witness:
  "HandlePutDoc (\<lambda>s. Some []) (\<lambda>v. '''') (\<lambda>d b. Inr ''1-a'') (\<lambda>d b rs. Some (HTTPError 409 ''Conflict''))
     [] \<lparr>ContentType = ''application/json'', ReadAllBody = Inr ''{}'', NewEdits = ''false''\<rparr> ''doc1''
   = Return [WriteHeader 400,
             SetHeader ''Content-Type'' ''application/json'',
             WriteJSON (JObject [(''error'', JNumber 400), (''reason'', JString ''Bad _revisions'')]),
             CallPutExistingRev ''doc1'' [] None,
             WriteHeader 409,
             SetHeader ''Content-Type'' ''application/json'',
             WriteJSON (JObject [(''error'', JNumber 409), (''reason'', JString ''Conflict'')]),
             WriteHeader 201]"
  using HandlePutDoc_new_edits_false [of "\<lambda>s. Some []"
      "\<lparr>ContentType = ''application/json'', ReadAllBody = Inr ''{}'', NewEdits = ''false''\<rparr>" "[]"
      "\<lambda>v. ''''" "\<lambda>d b. Inr ''1-a''" "\<lambda>d b rs. Some (HTTPError 409 ''Conflict'')" "[]" "''doc1''" None]
  by (simp add: readJSON_def readJSONInto_def parseRevisions_def writeError_def writeJSON_def
      ErrorAsHTTPStatus_def)

section \<open>Properties: the database registry\<close>

text \<open>
  \<open>kDBNameMatch\<close> is the unanchored search: it holds exactly when some non-empty
  substring consists of class characters.
\<close>

lemma kDBNameMatch_substring:
  "kDBNameMatch s = (\<exists>pre m post. s = pre @ m @ post \<and> m \<noteq> [] \<and> list_all dbNameChar m)"
proof
  assume "kDBNameMatch s"
  then obtain c where c: "c \<in> set s" "dbNameChar c"
    by (auto simp add: kDBNameMatch_def list_ex_iff)
  then obtain pre post where "s = pre @ c # post"
    by (auto dest: split_list)
  then have "s = pre @ [c] @ post \<and> [c] \<noteq> [] \<and> list_all dbNameChar [c]"
    using c by simp
  then show "\<exists>pre m post. s = pre @ m @ post \<and> m \<noteq> [] \<and> list_all dbNameChar m"
    by blast
next
  assume "\<exists>pre m post. s = pre @ m @ post \<and> m \<noteq> [] \<and> list_all dbNameChar m"
  then obtain pre m post where m: "s = pre @ m @ post" "m \<noteq> []" "list_all dbNameChar m"
    by blast
  then have "hd m \<in> set s" "dbNameChar (hd m)"
    by (auto simp add: list_all_iff)
  then show "kDBNameMatch s"
    by (auto simp add: kDBNameMatch_def list_ex_iff)
qed

lemma whole_match_is_match:
  "name \<noteq> '''' \<Longrightarrow> list_all dbNameChar name \<Longrightarrow> kDBNameMatch name"
  by (cases name) (simp_all add: kDBNameMatch_def)

lemma dbInternalDocName_match:
  "kDBNameMatch name \<Longrightarrow> dbInternalDocName name = ''cdb:'' @ name"
  by (simp add: dbInternalDocName_def)

lemma map_of_kv_set: "map_of (kv_set k v ps) k = Some v"
  by (simp add: kv_set_def)

lemma dbNameChar_db: "list_all dbNameChar ''db''"
  by (simp add: dbNameChar_def)

text \<open>
  What the name check does reject: a name with no character of the class at all (the
  empty name among them) is answered with 400 by both functions, and the bucket is not
  touched.
\<close>

lemma no_class_char_rejected:
  "\<not> kDBNameMatch name \<Longrightarrow>
     GetDatabase b name = (Inl (HTTPError 400 ''Illegal database name''), b) \<and>
     CreateDatabase b name uuid = (Inl (HTTPError 400 ''Illegal database name''), b)"
  by (simp add: GetDatabase_def CreateDatabase_def dbInternalDocName_def)

lemma no_class_char_rejected_witness:
  "\<not> kDBNameMatch ''MY DB'' \<and>
   GetDatabase \<lparr>kv = [], oplog = []\<rparr> ''MY DB'' =
     (Inl (HTTPError 400 ''Illegal database name''), \<lparr>kv = [], oplog = []\<rparr>) \<and>
   CreateDatabase \<lparr>kv = [], oplog = []\<rparr> ''MY DB'' ''u1'' =
     (Inl (HTTPError 400 ''Illegal database name''), \<lparr>kv = [], oplog = []\<rparr>)"
proof -
  have h: "\<not> kDBNameMatch ''MY DB''"
    by (simp add: kDBNameMatch_def dbNameChar_def)
  show ?thesis
    using h no_class_char_rejected [OF h, of "\<lparr>kv = [], oplog = []\<rparr>" "''u1''"] by simp
qed

text \<open>
  Claim C1 does not hold of the code. The name \<open>A1\<close> contains \<open>A\<close>, which is outside the
  class, but \<^verbatim>\<open>MatchString\<close> finds the match \<open>1\<close>: \<^verbatim>\<open>GetDatabase\<close> reads the key
  \<open>cdb:A1\<close> and answers with the bucket's not-found error (404), and \<^verbatim>\<open>CreateDatabase\<close>
  reads and writes that key and returns a handle.
\<close>

theorem illegal_name_accepted:
  "\<not> list_all dbNameChar ''A1'' \<and>
   GetDatabase \<lparr>kv = [], oplog = []\<rparr> ''A1'' =
     (Inl (MCResponse KEY_ENOENT), \<lparr>kv = [], oplog = [OpGet ''cdb:A1'']\<rparr>) \<and>
   fst (ErrorAsHTTPStatus (Some (MCResponse KEY_ENOENT))) = 404 \<and>
   CreateDatabase \<lparr>kv = [], oplog = []\<rparr> ''A1'' ''u1'' =
     (Inr \<lparr>Name = ''A1'', DocPrefix = ''doc:A1/u1:''\<rparr>,
      \<lparr>kv = [(''cdb:A1'', DbRecord \<lparr>Name = ''A1'', DocPrefix = ''doc:A1/u1:''\<rparr>)],
       oplog = [OpGet ''cdb:A1'', OpSet ''cdb:A1'']\<rparr>)"
  by (simp add: GetDatabase_def CreateDatabase_def dbInternalDocName_def kDBNameMatch_def
      dbNameChar_def bucket_Get_def bucket_Set_def kv_set_def Let_def ErrorAsHTTPStatus_def
      KEY_ENOENT_def StatusNotFound_def)

text \<open>
  Claim C5: for a name made of class characters only (and not empty),
  \<^verbatim>\<open>CreateDatabase\<close> fails with 412 and leaves the stored pairs as they are when
  \<open>cdb:name\<close> holds a database record; otherwise it writes the record with
  \<open>docPrefix = "doc:" + name + "/" + uuid + ":"\<close> under that key and returns the handle
  with that name and prefix.
\<close>

theorem CreateDatabase_valid_name:
  "name \<noteq> '''' \<and> list_all dbNameChar name \<longrightarrow>
     ((\<exists>d. map_of (kv b) (''cdb:'' @ name) = Some (DbRecord d)) \<longrightarrow>
        fst (CreateDatabase b name uuid) = Inl (HTTPError 412 ''Database already exists'') \<and>
        kv (snd (CreateDatabase b name uuid)) = kv b) \<and>
     (\<not> (\<exists>d. map_of (kv b) (''cdb:'' @ name) = Some (DbRecord d)) \<longrightarrow>
        fst (CreateDatabase b name uuid) =
          Inr \<lparr>Name = name, DocPrefix = ''doc:'' @ name @ ''/'' @ uuid @ '':''\<rparr> \<and>
        map_of (kv (snd (CreateDatabase b name uuid))) (''cdb:'' @ name) =
          Some (DbRecord \<lparr>Name = name, DocPrefix = ''doc:'' @ name @ ''/'' @ uuid @ '':''\<rparr>))"
proof (intro impI)
  assume "name \<noteq> '''' \<and> list_all dbNameChar name"
  then have m: "dbInternalDocName name = ''cdb:'' @ name"
    by (simp add: whole_match_is_match dbInternalDocName_match)
  show "((\<exists>d. map_of (kv b) (''cdb:'' @ name) = Some (DbRecord d)) \<longrightarrow>
        fst (CreateDatabase b name uuid) = Inl (HTTPError 412 ''Database already exists'') \<and>
        kv (snd (CreateDatabase b name uuid)) = kv b) \<and>
     (\<not> (\<exists>d. map_of (kv b) (''cdb:'' @ name) = Some (DbRecord d)) \<longrightarrow>
        fst (CreateDatabase b name uuid) =
          Inr \<lparr>Name = name, DocPrefix = ''doc:'' @ name @ ''/'' @ uuid @ '':''\<rparr> \<and>
        map_of (kv (snd (CreateDatabase b name uuid))) (''cdb:'' @ name) =
          Some (DbRecord \<lparr>Name = name, DocPrefix = ''doc:'' @ name @ ''/'' @ uuid @ '':''\<rparr>))"
    by (auto simp add: CreateDatabase_def m Let_def bucket_Get_def bucket_Set_def map_of_kv_set
        split: option.splits bval.splits)
qed

theorem CreateDatabase_valid_name_witness:
  "fst (CreateDatabase \<lparr>kv = [], oplog = []\<rparr> ''db'' ''u1'') =
     Inr \<lparr>Name = ''db'', DocPrefix = ''doc:db/u1:''\<rparr> \<and>
   fst (CreateDatabase \<lparr>kv = [(''cdb:db'', DbRecord \<lparr>Name = ''db'', DocPrefix = ''doc:db/u1:''\<rparr>)], oplog = []\<rparr>
          ''db'' ''u2'') =
     Inl (HTTPError 412 ''Database already exists'')"
  using CreateDatabase_valid_name [of "''db''" "\<lparr>kv = [], oplog = []\<rparr>" "''u1''"]
    CreateDatabase_valid_name [of "''db''"
      "\<lparr>kv = [(''cdb:db'', DbRecord \<lparr>Name = ''db'', DocPrefix = ''doc:db/u1:''\<rparr>)], oplog = []\<rparr>" "''u2''"]
    dbNameChar_db
  by simp

section \<open>Properties: deleting a database\<close>

lemma sequenceDocID_db:
  "sequenceDocID \<lparr>Name = ''db'', DocPrefix = ''doc:db/u1:''\<rparr> = ''cdb:db:nextsequence''"
  by (simp add: sequenceDocID_def dbInternalDocName_def kDBNameMatch_def dbNameChar_def)

lemma kv_deleteLoop:
  "kv (deleteLoop ks b) = filter (\<lambda>p. fst p \<notin> set ks) (kv b)"
  by (induction ks arbitrary: b) (auto simp add: bucket_Delete_def kv_delete_def intro: filter_cong)

lemma Delete_removes_listed_keys:
  "AllDocIDs db view = Return (Inr docIDs) \<Longrightarrow> Delete db view b = Return (None, b') \<Longrightarrow>
     kv b' = filter (\<lambda>p. fst p \<notin> set (dbInternalDocName (Name db) # sequenceDocID db # docIDs)) (kv b)"
  by (auto simp add: Delete_def Let_def kv_deleteLoop bucket_Delete_def kv_delete_def
      split: option.splits prod.splits intro: filter_cong)

lemma Delete_removes_listed_keys_witness:
  "kv (snd (case Delete \<lparr>Name = ''db'', DocPrefix = ''doc:db/u1:''\<rparr>
              (\<lambda>design name opts. Inr [\<lparr>Key = JArray [JString ''db/u1'', JString ''a''], Value = JNull\<rparr>])
              \<lparr>kv = [(''cdb:db'', DbRecord \<lparr>Name = ''db'', DocPrefix = ''doc:db/u1:''\<rparr>),
                     (''a'', Counter 0)], oplog = []\<rparr>
            of Return x \<Rightarrow> x)) = []"
proof -
  have 1: "AllDocIDs \<lparr>Name = ''db'', DocPrefix = ''doc:db/u1:''\<rparr>
             (\<lambda>design name opts. Inr [\<lparr>Key = JArray [JString ''db/u1'', JString ''a''], Value = JNull\<rparr>])
           = Return (Inr [''a''])"
    by (simp add: AllDocIDs_def allDocIDsOpts_def UUID_def)
  have 2: "Delete \<lparr>Name = ''db'', DocPrefix = ''doc:db/u1:''\<rparr>
             (\<lambda>design name opts. Inr [\<lparr>Key = JArray [JString ''db/u1'', JString ''a''], Value = JNull\<rparr>])
             \<lparr>kv = [(''cdb:db'', DbRecord \<lparr>Name = ''db'', DocPrefix = ''doc:db/u1:''\<rparr>),
                    (''a'', Counter 0)], oplog = []\<rparr>
           = Return (None,
               \<lparr>kv = [], oplog = [OpDelete ''cdb:db'', OpDelete ''cdb:db:nextsequence'', OpDelete ''a'']\<rparr>)"
    by (simp add: Delete_def 1 sequenceDocID_db dbInternalDocName_def kDBNameMatch_def
        dbNameChar_def bucket_Delete_def kv_delete_def Let_def)
  show ?thesis
    using Delete_removes_listed_keys [OF 1 2] by (simp add: 2)
qed

text \<open>
  Claim C2 does not hold of the code. The database \<open>db\<close> stores its document \<open>a\<close> under
  \<open>realDocID(a) = doc:db/u1:a\<close>; the \<^verbatim>\<open>all_docs\<close> row of that key carries the docid
  \<open>a\<close>, \<^verbatim>\<open>AllDocIDs\<close> returns \<open>[a]\<close>, and \<^verbatim>\<open>Delete\<close> passes that bare docid to
  \<^verbatim>\<open>bucket.Delete\<close>. \<^verbatim>\<open>Delete\<close> succeeds, the database record and the counter are gone,
  and the document record is still in the bucket.
\<close>

theorem Delete_leaves_documents:
  "AllDocIDs \<lparr>Name = ''db'', DocPrefix = ''doc:db/u1:''\<rparr>
     (all_docs_view
        \<lparr>kv = [(''cdb:db'', DbRecord \<lparr>Name = ''db'', DocPrefix = ''doc:db/u1:''\<rparr>),
               (''cdb:db:nextsequence'', Counter 1),
               (''doc:db/u1:a'', DocRecord (JObject [(''sequence'', JNumber 1)]))],
         oplog = []\<rparr>)
     = Return (Inr [''a'']) \<and>
   realDocID \<lparr>Name = ''db'', DocPrefix = ''doc:db/u1:''\<rparr> ''a'' = ''doc:db/u1:a'' \<and>
   Delete \<lparr>Name = ''db'', DocPrefix = ''doc:db/u1:''\<rparr>
     (all_docs_view
        \<lparr>kv = [(''cdb:db'', DbRecord \<lparr>Name = ''db'', DocPrefix = ''doc:db/u1:''\<rparr>),
               (''cdb:db:nextsequence'', Counter 1),
               (''doc:db/u1:a'', DocRecord (JObject [(''sequence'', JNumber 1)]))],
         oplog = []\<rparr>)
     \<lparr>kv = [(''cdb:db'', DbRecord \<lparr>Name = ''db'', DocPrefix = ''doc:db/u1:''\<rparr>),
            (''cdb:db:nextsequence'', Counter 1),
            (''doc:db/u1:a'', DocRecord (JObject [(''sequence'', JNumber 1)]))],
      oplog = []\<rparr>
     = Return (None,
         \<lparr>kv = [(''doc:db/u1:a'', DocRecord (JObject [(''sequence'', JNumber 1)]))],
          oplog = [OpDelete ''cdb:db'', OpDelete ''cdb:db:nextsequence'', OpDelete ''a'']\<rparr>)"
  by (simp add: Delete_def AllDocIDs_def allDocIDsOpts_def UUID_def all_docs_view_def
      alldocs_map_def js_split_def stored_json_def realDocID_def sequenceDocID_def
      dbInternalDocName_def kDBNameMatch_def dbNameChar_def bucket_Delete_def kv_delete_def
      Let_def)

section \<open>Properties: the changes feed\<close>

lemma changeEntry_row:
  "changeEntry \<lparr>Key = JArray [JString uuid, JNumber (of_int (uint s))],
                Value = JArray ([JString i, JString r] @ (case d of None \<Rightarrow> [] | Some b \<Rightarrow> [JBool b]))\<rparr>
     = Return \<lparr>Seq = s, ID = i, Changes = [[(''rev'', r)]], Deleted = (d = Some True)\<rparr>"
  by (cases d) (auto simp add: changeEntry_def go_trunc_of_int word_of_int_uint simp del: of_int_uint)

lemma changesLoop_rows:
  "changesLoop
     (map (\<lambda>(s, i, r, d).
             \<lparr>Key = JArray [JString uuid, JNumber (of_int (uint s))],
              Value = JArray ([JString i, JString r] @ (case d of None \<Rightarrow> [] | Some b \<Rightarrow> [JBool b]))\<rparr>) xs)
     acc
   = Return (acc @ map (\<lambda>(s, i, r, d).
                          \<lparr>Seq = s, ID = i, Changes = [[(''rev'', r)]], Deleted = (d = Some True)\<rparr>) xs)"
proof (induction xs arbitrary: acc)
  case Nil
  then show ?case by simp
next
  case (Cons x xs)
  obtain s i r d where x: "x = (s, i, r, d)"
    by (cases x) auto
  show ?case
    using Cons.IH by (simp add: x changeEntry_row del: append.simps of_int_uint)
qed

text \<open>
  Claim C3, as the code has it: \<^verbatim>\<open>GetChanges\<close> queries the \<^verbatim>\<open>changes\<close> view of design
  document \<^verbatim>\<open>couchdb\<close> with \<open>startkey = [uuid, since + 1]\<close> (a \<^verbatim>\<open>uint64\<close> sum),
  \<open>endkey = [uuid, {}]\<close>, \<open>descending\<close>, and \<open>limit\<close> only when the limit is
  positive; an error of the view is returned as it is, and rows with key
  \<open>[uuid, seq]\<close> and value \<open>[id, rev]\<close> or \<open>[id, rev, b]\<close> become the entries
  \<open>{seq, id, changes: [{rev}], deleted}\<close> in the same order, where \<open>deleted\<close> is true
  exactly when the third element is present and true.
\<close>

theorem GetChanges_query_and_entries:
  assumes "UUID db = Return uuid"
  shows
  "(view ''couchdb'' ''changes''
      ([(''startkey'', JArray [JString uuid, JNumber (of_int (uint (Since options + 1)))]),
        (''endkey'', JArray [JString uuid, JObject []]),
        (''descending'', JBool (Descending options))] @
       (if 0 < sint (Limit options) then [(''limit'', JNumber (of_int (sint (Limit options))))] else []))
      = Inl err \<longrightarrow>
    GetChanges db view options = Return (Inl err)) \<and>
   (view ''couchdb'' ''changes''
      ([(''startkey'', JArray [JString uuid, JNumber (of_int (uint (Since options + 1)))]),
        (''endkey'', JArray [JString uuid, JObject []]),
        (''descending'', JBool (Descending options))] @
       (if 0 < sint (Limit options) then [(''limit'', JNumber (of_int (sint (Limit options))))] else []))
      = Inr (map (\<lambda>(s, i, r, d).
                    \<lparr>Key = JArray [JString uuid, JNumber (of_int (uint s))],
                     Value = JArray ([JString i, JString r] @
                                     (case d of None \<Rightarrow> [] | Some b \<Rightarrow> [JBool b]))\<rparr>) xs) \<longrightarrow>
    GetChanges db view options =
      Return (Inr (map (\<lambda>(s, i, r, d).
                          \<lparr>Seq = s, ID = i, Changes = [[(''rev'', r)]], Deleted = (d = Some True)\<rparr>) xs)))"
proof -
  have opts: "changesOpts db options =
      Return ([(''startkey'', JArray [JString uuid, JNumber (of_int (uint (Since options + 1)))]),
        (''endkey'', JArray [JString uuid, JObject []]),
        (''descending'', JBool (Descending options))] @
       (if 0 < sint (Limit options) then [(''limit'', JNumber (of_int (sint (Limit options))))] else []))"
    using assms by (simp add: changesOpts_def Let_def)
  have loop: "changesLoop
     (map (\<lambda>(s, i, r, d).
             \<lparr>Key = JArray [JString uuid, JNumber (of_int (uint s))],
              Value = JArray ([JString i, JString r] @ (case d of None \<Rightarrow> [] | Some b \<Rightarrow> [JBool b]))\<rparr>) xs)
     []
   = Return (map (\<lambda>(s, i, r, d).
                          \<lparr>Seq = s, ID = i, Changes = [[(''rev'', r)]], Deleted = (d = Some True)\<rparr>) xs)"
    using changesLoop_rows [of uuid xs "[]"] by (simp only: append_Nil)
  show ?thesis
  proof (intro conjI impI)
    assume "view ''couchdb'' ''changes''
      ([(''startkey'', JArray [JString uuid, JNumber (of_int (uint (Since options + 1)))]),
        (''endkey'', JArray [JString uuid, JObject []]),
        (''descending'', JBool (Descending options))] @
       (if 0 < sint (Limit options) then [(''limit'', JNumber (of_int (sint (Limit options))))] else []))
      = Inl err"
    then show "GetChanges db view options = Return (Inl err)"
      unfolding GetChanges_def opts by (simp only: exec.case sum.case)
  next
    assume "view ''couchdb'' ''changes''
      ([(''startkey'', JArray [JString uuid, JNumber (of_int (uint (Since options + 1)))]),
        (''endkey'', JArray [JString uuid, JObject []]),
        (''descending'', JBool (Descending options))] @
       (if 0 < sint (Limit options) then [(''limit'', JNumber (of_int (sint (Limit options))))] else []))
      = Inr (map (\<lambda>(s, i, r, d).
                    \<lparr>Key = JArray [JString uuid, JNumber (of_int (uint s))],
                     Value = JArray ([JString i, JString r] @
                                     (case d of None \<Rightarrow> [] | Some b \<Rightarrow> [JBool b]))\<rparr>) xs)"
    then show "GetChanges db view options =
      Return (Inr (map (\<lambda>(s, i, r, d).
                          \<lparr>Seq = s, ID = i, Changes = [[(''rev'', r)]], Deleted = (d = Some True)\<rparr>) xs))"
      unfolding GetChanges_def opts by (simp only: exec.case sum.case loop)
  qed
qed

theorem GetChanges_query_and_entries_witness:
  "GetChanges \<lparr>Name = ''db'', DocPrefix = ''doc:db/u1:''\<rparr>
     (\<lambda>design name opts.
        if opts = [(''startkey'', JArray [JString ''db/u1'', JNumber 3]),
                   (''endkey'', JArray [JString ''db/u1'', JObject []]),
                   (''descending'', JBool False),
                   (''limit'', JNumber 10)]
        then Inr [\<lparr>Key = JArray [JString ''db/u1'', JNumber 3],
                   Value = JArray [JString ''a'', JString ''1-x'']\<rparr>,
                  \<lparr>Key = JArray [JString ''db/u1'', JNumber 4],
                   Value = JArray [JString ''b'', JString ''2-y'', JBool True]\<rparr>]
        else Inl (OtherError ''other query''))
     \<lparr>Since = 2, Limit = 10, Descending = False\<rparr>
   = Return (Inr [\<lparr>Seq = 3, ID = ''a'', Changes = [[(''rev'', ''1-x'')]], Deleted = False\<rparr>,
                  \<lparr>Seq = 4, ID = ''b'', Changes = [[(''rev'', ''2-y'')]], Deleted = True\<rparr>])"
  using GetChanges_query_and_entries [of "\<lparr>Name = ''db'', DocPrefix = ''doc:db/u1:''\<rparr>" "''db/u1''"
      "(\<lambda>design name opts.
        if opts = [(''startkey'', JArray [JString ''db/u1'', JNumber 3]),
                   (''endkey'', JArray [JString ''db/u1'', JObject []]),
                   (''descending'', JBool False),
                   (''limit'', JNumber 10)]
        then Inr [\<lparr>Key = JArray [JString ''db/u1'', JNumber 3],
                   Value = JArray [JString ''a'', JString ''1-x'']\<rparr>,
                  \<lparr>Key = JArray [JString ''db/u1'', JNumber 4],
                   Value = JArray [JString ''b'', JString ''2-y'', JBool True]\<rparr>]
        else Inl (OtherError ''other query''))"
      "\<lparr>Since = 2, Limit = 10, Descending = False\<rparr>" "OtherError ''x''"
      "[(3, ''a'', ''1-x'', None), (4, ''b'', ''2-y'', Some True)]"]
  by (simp add: UUID_def)

text \<open>
  Claim C3 as stated fails: with limit 0 the query carries no \<open>limit\<close> option.
\<close>

theorem GetChanges_limit_counterexample:
  "changesOpts \<lparr>Name = ''db'', DocPrefix = ''doc:db/u1:''\<rparr> \<lparr>Since = 2, Limit = 0, Descending = False\<rparr>
     = Return [(''startkey'', JArray [JString ''db/u1'', JNumber 3]),
               (''endkey'', JArray [JString ''db/u1'', JObject []]),
               (''descending'', JBool False)] \<and>
   GetChanges \<lparr>Name = ''db'', DocPrefix = ''doc:db/u1:''\<rparr>
     (\<lambda>design name opts.
        if map_of opts ''limit'' = Some (JNumber 0) then Inr [] else Inl (OtherError ''no limit passed''))
     \<lparr>Since = 2, Limit = 0, Descending = False\<rparr>
     = Return (Inl (OtherError ''no limit passed''))"
  by (simp add: GetChanges_def changesOpts_def UUID_def Let_def)

section \<open>Properties: the database UUID and the view keys\<close>

lemma splitOn_nonempty: "splitOn c s \<noteq> []"
  by (induction s) (auto split: list.splits)

lemma splitOn_prefix:
  "c \<notin> set xs \<Longrightarrow> splitOn c (xs @ c # ys) = xs # splitOn c ys"
  by (induction xs) auto

lemma hd_splitOn: "hd (splitOn c s) = takeWhile (\<lambda>x. x \<noteq> c) s"
  by (induction s) (auto split: list.splits simp add: splitOn_nonempty)

lemma take3: "l \<noteq> [] \<Longrightarrow> take 3 (a # b # l) = [a, b, hd l]"
  by (cases l) (simp_all add: numeral_3_eq_3)

lemma js_split_three:
  "splitOn CHR '':'' s = a # b # l \<Longrightarrow> l \<noteq> [] \<Longrightarrow> js_split s 3 = [a, b, hd l]"
  by (simp add: js_split_def take3 del: take_Cons_numeral)

lemma js_split_doc_key:
  assumes "CHR '':'' \<notin> set n" and "CHR '':'' \<notin> set u"
  shows "js_split (''doc:'' @ n @ ''/'' @ u @ '':'' @ d) 3 =
           [''doc'', n @ ''/'' @ u, takeWhile (\<lambda>x. x \<noteq> CHR '':'') d]"
proof -
  have 1: "splitOn CHR '':'' (''doc'' @ CHR '':'' # ((n @ ''/'' @ u) @ CHR '':'' # d)) =
             ''doc'' # splitOn CHR '':'' ((n @ ''/'' @ u) @ CHR '':'' # d)"
    by (rule splitOn_prefix) simp
  have 2: "splitOn CHR '':'' ((n @ ''/'' @ u) @ CHR '':'' # d) = (n @ ''/'' @ u) # splitOn CHR '':'' d"
    by (rule splitOn_prefix) (use assms in simp)
  have "splitOn CHR '':'' (''doc:'' @ n @ ''/'' @ u @ '':'' @ d) =
          ''doc'' # (n @ ''/'' @ u) # splitOn CHR '':'' d"
    using 1 2 by simp
  then have "js_split (''doc:'' @ n @ ''/'' @ u @ '':'' @ d) 3 =
               [''doc'', n @ ''/'' @ u, hd (splitOn CHR '':'' d)]"
    by (rule js_split_three) (rule splitOn_nonempty)
  then show ?thesis
    by (simp only: hd_splitOn)
qed

lemma UUID_of_prefix:
  "UUID \<lparr>Name = n, DocPrefix = ''doc:'' @ n @ ''/'' @ u @ '':''\<rparr> = Return (n @ ''/'' @ u)"
  by (simp add: UUID_def Let_def)

lemma CreateDatabase_handle:
  "fst (CreateDatabase b n u) = Inr db \<Longrightarrow>
     db = \<lparr>Name = n, DocPrefix = ''doc:'' @ n @ ''/'' @ u @ '':''\<rparr>"
  by (auto simp add: CreateDatabase_def Let_def bucket_Get_def bucket_Set_def
      split: if_splits option.splits bval.splits)

text \<open>
  For a handle created by \<^verbatim>\<open>CreateDatabase\<close> with name \<open>n\<close> and generated uuid \<open>u\<close>,
  \<^verbatim>\<open>UUID()\<close> returns \<open>n + "/" + u\<close>, and this is the first component of \<open>startkey\<close>
  and \<open>endkey\<close> in \<^verbatim>\<open>allDocIDsOpts\<close> and \<^verbatim>\<open>GetChanges\<close>. When none of \<open>n\<close>, \<open>u\<close>
  and the docid \<open>d\<close> contains a colon, the key \<open>realDocID(d)\<close> splits into \<open>doc\<close>,
  \<open>UUID()\<close> and \<open>d\<close>, and the rows that \<open>alldocs_map\<close> and \<open>changes_map\<close> emit for
  it have \<open>UUID()\<close> as their first key component.
\<close>

theorem UUID_keys_colon_free:
  assumes "fst (CreateDatabase b n u) = Inr db"
  shows "UUID db = Return (n @ ''/'' @ u) \<and>
         (CHR '':'' \<notin> set n \<and> CHR '':'' \<notin> set u \<and> CHR '':'' \<notin> set d \<longrightarrow>
            js_split (realDocID db d) 3 = [''doc'', n @ ''/'' @ u, d] \<and>
            alldocs_map doc (realDocID db d) =
              [\<lparr>Key = JArray [JString (n @ ''/'' @ u), JString d], Value = JNull\<rparr>] \<and>
            (\<forall>row \<in> set (changes_map doc (realDocID db d)).
               \<exists>sequence. Key row = JArray [JString (n @ ''/'' @ u), sequence])) \<and>
         allDocIDsOpts db reduce =
           Return [(''startkey'', JArray [JString (n @ ''/'' @ u)]),
                   (''endkey'', JArray [JString (n @ ''/'' @ u), JObject []]),
                   (''reduce'', JBool reduce)] \<and>
         changesOpts db options =
           Return ([(''startkey'', JArray [JString (n @ ''/'' @ u), JNumber (of_int (uint (Since options + 1)))]),
                    (''endkey'', JArray [JString (n @ ''/'' @ u), JObject []]),
                    (''descending'', JBool (Descending options))] @
                   (if 0 < sint (Limit options) then [(''limit'', JNumber (of_int (sint (Limit options))))] else []))"
proof -
  have db: "db = \<lparr>Name = n, DocPrefix = ''doc:'' @ n @ ''/'' @ u @ '':''\<rparr>"
    using assms by (rule CreateDatabase_handle)
  have uuid: "UUID db = Return (n @ ''/'' @ u)"
    unfolding db by (rule UUID_of_prefix)
  have tw: "takeWhile (\<lambda>x. x \<noteq> CHR '':'') d = d" if "CHR '':'' \<notin> set d"
    using that by (induction d) auto
  have split: "js_split (realDocID db d) 3 = [''doc'', n @ ''/'' @ u, d]"
    if "CHR '':'' \<notin> set n" "CHR '':'' \<notin> set u" "CHR '':'' \<notin> set d"
    using js_split_doc_key [OF that(1,2), of d] tw [OF that(3)] by (simp add: realDocID_def db)
  have all: "alldocs_map doc (realDocID db d) =
              [\<lparr>Key = JArray [JString (n @ ''/'' @ u), JString d], Value = JNull\<rparr>]"
    if "CHR '':'' \<notin> set n" "CHR '':'' \<notin> set u" "CHR '':'' \<notin> set d"
    by (simp add: alldocs_map_def split [OF that])
  have chg: "\<forall>row \<in> set (changes_map doc (realDocID db d)).
               \<exists>sequence. Key row = JArray [JString (n @ ''/'' @ u), sequence]"
    if "CHR '':'' \<notin> set n" "CHR '':'' \<notin> set u" "CHR '':'' \<notin> set d"
    by (auto simp add: changes_map_def split [OF that] Let_def split: option.splits)
  have o1: "allDocIDsOpts db reduce =
           Return [(''startkey'', JArray [JString (n @ ''/'' @ u)]),
                   (''endkey'', JArray [JString (n @ ''/'' @ u), JObject []]),
                   (''reduce'', JBool reduce)]"
    by (simp add: allDocIDsOpts_def uuid)
  have o2: "changesOpts db options =
           Return ([(''startkey'', JArray [JString (n @ ''/'' @ u), JNumber (of_int (uint (Since options + 1)))]),
                    (''endkey'', JArray [JString (n @ ''/'' @ u), JObject []]),
                    (''descending'', JBool (Descending options))] @
                   (if 0 < sint (Limit options) then [(''limit'', JNumber (of_int (sint (Limit options))))] else []))"
    by (simp add: changesOpts_def uuid Let_def)
  show ?thesis
    using uuid split all chg o1 o2 by simp
qed

theorem UUID_keys_colon_free_witness:
  "fst (CreateDatabase \<lparr>kv = [], oplog = []\<rparr> ''db'' ''u1'') =
     Inr \<lparr>Name = ''db'', DocPrefix = ''doc:db/u1:''\<rparr> \<and>
   UUID \<lparr>Name = ''db'', DocPrefix = ''doc:db/u1:''\<rparr> = Return ''db/u1'' \<and>
   js_split (realDocID \<lparr>Name = ''db'', DocPrefix = ''doc:db/u1:''\<rparr> ''a'') 3 = [''doc'', ''db/u1'', ''a''] \<and>
   alldocs_map JNull (realDocID \<lparr>Name = ''db'', DocPrefix = ''doc:db/u1:''\<rparr> ''a'') =
     [\<lparr>Key = JArray [JString ''db/u1'', JString ''a''], Value = JNull\<rparr>] \<and>
   allDocIDsOpts \<lparr>Name = ''db'', DocPrefix = ''doc:db/u1:''\<rparr> False =
     Return [(''startkey'', JArray [JString ''db/u1'']),
             (''endkey'', JArray [JString ''db/u1'', JObject []]),
             (''reduce'', JBool False)]"
proof -
  have h: "fst (CreateDatabase \<lparr>kv = [], oplog = []\<rparr> ''db'' ''u1'') =
             Inr \<lparr>Name = ''db'', DocPrefix = ''doc:db/u1:''\<rparr>"
    by (simp add: CreateDatabase_def dbInternalDocName_def kDBNameMatch_def dbNameChar_def
        bucket_Get_def bucket_Set_def Let_def)
  show ?thesis
    using h UUID_keys_colon_free [OF h, of "''a''" JNull False
        "\<lparr>Since = 0, Limit = 0, Descending = False\<rparr>"]
    by simp
qed

text \<open>
  Claim C9 does not hold of the code. The database \<open>db\<close> stores its document \<open>x:y\<close>
  under \<open>realDocID(x:y) = doc:db/u1:x:y\<close>. \<^verbatim>\<open>meta.id.split(":", 3)\<close> cuts that key into
  \<open>doc\<close>, \<open>db/u1\<close> and \<open>x\<close>, not \<open>x:y\<close>: the rest of the docid is dropped, the
  \<^verbatim>\<open>all_docs\<close> row carries the docid \<open>x\<close>, and \<^verbatim>\<open>AllDocIDs\<close> returns \<open>[x]\<close>.
\<close>

theorem colon_docid_truncated:
  "fst (CreateDatabase \<lparr>kv = [], oplog = []\<rparr> ''db'' ''u1'') =
     Inr \<lparr>Name = ''db'', DocPrefix = ''doc:db/u1:''\<rparr> \<and>
   UUID \<lparr>Name = ''db'', DocPrefix = ''doc:db/u1:''\<rparr> = Return ''db/u1'' \<and>
   realDocID \<lparr>Name = ''db'', DocPrefix = ''doc:db/u1:''\<rparr> ''x:y'' = ''doc:db/u1:x:y'' \<and>
   js_split (realDocID \<lparr>Name = ''db'', DocPrefix = ''doc:db/u1:''\<rparr> ''x:y'') 3 = [''doc'', ''db/u1'', ''x''] \<and>
   alldocs_map (JObject []) (realDocID \<lparr>Name = ''db'', DocPrefix = ''doc:db/u1:''\<rparr> ''x:y'') =
     [\<lparr>Key = JArray [JString ''db/u1'', JString ''x''], Value = JNull\<rparr>] \<and>
   AllDocIDs \<lparr>Name = ''db'', DocPrefix = ''doc:db/u1:''\<rparr>
     (all_docs_view \<lparr>kv = [(''doc:db/u1:x:y'', DocRecord (JObject []))], oplog = []\<rparr>)
     = Return (Inr [''x''])"
  by (simp add: CreateDatabase_def dbInternalDocName_def kDBNameMatch_def dbNameChar_def
      bucket_Get_def bucket_Set_def Let_def UUID_def js_split_def realDocID_def alldocs_map_def
      AllDocIDs_def allDocIDsOpts_def all_docs_view_def stored_json_def)

text \<open>
  A name with a colon, which the unanchored name check lets through, moves the pieces:
  for the database \<open>a:b\<close> the first key component of a document row is \<open>a\<close>, not
  \<open>UUID() = a:b/u1\<close>.
\<close>

lemma colon_name_key_component:
  "fst (CreateDatabase \<lparr>kv = [], oplog = []\<rparr> ''a:b'' ''u1'') =
     Inr \<lparr>Name = ''a:b'', DocPrefix = ''doc:a:b/u1:''\<rparr> \<and>
   UUID \<lparr>Name = ''a:b'', DocPrefix = ''doc:a:b/u1:''\<rparr> = Return ''a:b/u1'' \<and>
   alldocs_map (JObject []) (realDocID \<lparr>Name = ''a:b'', DocPrefix = ''doc:a:b/u1:''\<rparr> ''d'') =
     [\<lparr>Key = JArray [JString ''a'', JString ''b/u1''], Value = JNull\<rparr>]"
  by (simp add: CreateDatabase_def dbInternalDocName_def kDBNameMatch_def dbNameChar_def
      bucket_Get_def bucket_Set_def Let_def UUID_def js_split_def realDocID_def alldocs_map_def)

end
